theory Spec2Isabelle
  imports Complex_Main "HOL-Library.Word" "HOL-Library.Monad_Syntax"
begin

unbundle bit_operations_syntax

section \<open>The Qt bridge of wails: \<^verbatim>\<open>v2/internal/frontend/desktop/qt/lib.cpp\<close>\<close>

text \<open>
  The bridge is a set of C functions over three toolkit classes (application, top-level
  widget, web view) and one POSIX helper. The toolkit and the operating system are not
  code of the bridge; they are modelled by the documented effect of each call on the
  properties the bridge sets or reads. Objects live on a heap addressed by \<open>ptr\<close>; a
  pointer that designates no object of the expected class has no defined behaviour in
  C++, which the model renders as \<open>None\<close>.
\<close>

subsection \<open>Strings\<close>

type_synonym ptr = nat

text \<open>
  A \<^verbatim>\<open>char *\<close> argument is the byte string it points to. \<^verbatim>\<open>QString::fromUtf8\<close> is the
  toolkit's decoder; it is kept symbolic: a \<open>QString\<close> is the decoding of a byte string.
  \<^verbatim>\<open>toLocal8Bit\<close> encodes again (the text produced here is ASCII).
\<close>

datatype QString = QString_fromUtf8 string

fun toLocal8Bit :: "QString \<Rightarrow> string" where
  "toLocal8Bit (QString_fromUtf8 bytes) = bytes"

datatype QUrl = QUrl QString

subsection \<open>JSON values and their compact serialization\<close>

text \<open>
  The values the bridge builds: booleans, integers, objects and arrays. A
  \<^verbatim>\<open>QJsonObject\<close> keeps its members sorted by key, one member per key.
\<close>

datatype QJsonValue =
    JBool bool
  | JNumber int
  | JObject "(string \<times> QJsonValue) list"
  | JArray "QJsonValue list"

fun key_less :: "string \<Rightarrow> string \<Rightarrow> bool" where
  "key_less [] [] = False"
| "key_less [] (y # ys) = True"
| "key_less (x # xs) [] = False"
| "key_less (x # xs) (y # ys) =
     ((of_char x :: nat) < of_char y \<or> (x = y \<and> key_less xs ys))"

text \<open>\<^verbatim>\<open>obj[key] = value\<close>: replaces the member \<open>key\<close> or inserts it in key order.\<close>

fun QJsonObject_insert ::
  "string \<Rightarrow> QJsonValue \<Rightarrow> (string \<times> QJsonValue) list \<Rightarrow> (string \<times> QJsonValue) list" where
  "QJsonObject_insert k v [] = [(k, v)]"
| "QJsonObject_insert k v ((k', v') # rest) =
     (if k = k' then (k, v) # rest
      else if key_less k k' then (k, v) # (k', v') # rest
      else (k', v') # QJsonObject_insert k v rest)"

fun QJsonObject_value :: "(string \<times> QJsonValue) list \<Rightarrow> string \<Rightarrow> QJsonValue option" where
  "QJsonObject_value [] k = None"
| "QJsonObject_value ((k', v) # rest) k =
     (if k = k' then Some v else QJsonObject_value rest k)"

text \<open>\<^verbatim>\<open>v.toObject().value(key)\<close>, with \<open>None\<close> for a missing member.\<close>

definition json_member :: "QJsonValue \<Rightarrow> string \<Rightarrow> QJsonValue option" where
  "json_member v k = (case v of JObject members \<Rightarrow> QJsonObject_value members k | _ \<Rightarrow> None)"

definition digit_char :: "nat \<Rightarrow> char" where
  "digit_char d = ''0123456789'' ! d"

function show_nat :: "nat \<Rightarrow> string" where
  "show_nat n =
     (if n < 10 then [digit_char n] else show_nat (n div 10) @ [digit_char (n mod 10)])"
  by pat_completeness auto
termination
  by (relation "measure id") auto

declare show_nat.simps [simp del]

definition show_int :: "int \<Rightarrow> string" where
  "show_int i = (if i < 0 then CHR ''-'' # show_nat (nat (- i)) else show_nat (nat i))"

fun join_commas :: "string list \<Rightarrow> string" where
  "join_commas [] = []"
| "join_commas [x] = x"
| "join_commas (x # y # rest) = x @ '','' @ join_commas (y # rest)"

text \<open>
  \<^verbatim>\<open>QJsonDocument::toJson(QJsonDocument::Compact)\<close>: no white space. The keys written
  by the bridge need no escaping.
\<close>

fun toJson_Compact :: "QJsonValue \<Rightarrow> string" where
  "toJson_Compact (JBool b) = (if b then ''true'' else ''false'')"
| "toJson_Compact (JNumber i) = show_int i"
| "toJson_Compact (JObject members) =
     ''{'' @ join_commas
        (map (\<lambda>(k, v). [CHR 0x22] @ k @ [CHR 0x22] @ '':'' @ toJson_Compact v) members) @ ''}''"
| "toJson_Compact (JArray elems) =
     ''['' @ join_commas (map toJson_Compact elems) @ '']''"

subsection \<open>Toolkit objects and the heap\<close>

record QSize =
  width :: int
  height :: int

record QSizeF =
  widthF :: real
  heightF :: real

definition QWIDGETSIZE_MAX :: int where
  "QWIDGETSIZE_MAX = 16777215"

text \<open>\<^verbatim>\<open>Qt::WindowStates\<close> is a set of flags stored in an \<^verbatim>\<open>int\<close>.\<close>

type_synonym WindowStates = "32 word"

definition WindowNoState :: WindowStates where
  "WindowNoState = 0x0"

definition WindowMinimized :: WindowStates where
  "WindowMinimized = 0x1"

definition WindowMaximized :: WindowStates where
  "WindowMaximized = 0x2"

definition WindowFullScreen :: WindowStates where
  "WindowFullScreen = 0x4"

definition WindowActive :: WindowStates where
  "WindowActive = 0x8"

record QWidget =
  parentWidget :: "ptr option"
  widgetSize :: QSize
  minimumSize :: QSize
  maximumSize :: QSize
  windowTitle :: QString
  windowState :: WindowStates
  visible :: bool
  layout :: "ptr option"

record QVBoxLayout =
  layoutParent :: "ptr option"
  contentsMargins :: "int \<times> int \<times> int \<times> int"
  spacing :: int
  layoutItems :: "ptr list"

text \<open>A web view is a widget (its base-class part) that also has a page.\<close>

record QWebEngineView =
  viewWidget :: QWidget
  requestedUrl :: "QUrl option"

datatype qobject =
    QWidgetObj QWidget
  | QVBoxLayoutObj QVBoxLayout
  | QWebEngineViewObj QWebEngineView
  | QByteArrayData string

record heap =
  objs :: "ptr \<Rightarrow> qobject option"
  next_addr :: ptr

definition heap_new :: "qobject \<Rightarrow> heap \<Rightarrow> ptr \<times> heap" where
  "heap_new obj h =
     (next_addr h, h\<lparr>objs := (objs h)(next_addr h \<mapsto> obj), next_addr := Suc (next_addr h)\<rparr>)"

definition heap_delete :: "ptr \<Rightarrow> heap \<Rightarrow> heap" where
  "heap_delete p h = h\<lparr>objs := (objs h)(p := None)\<rparr>"

subsection \<open>The toolkit calls the bridge makes\<close>

text \<open>
  Modelled from the spec: \<^verbatim>\<open>runOnAppThread\<close> is defined in \<^verbatim>\<open>util.hpp\<close>, which is not
  among the sources. The spec describes it as hopping onto the UI thread: the call runs
  the closure on the state of the toolkit and hands its result back to the caller.
\<close>

definition runOnAppThread :: "'t \<Rightarrow> (heap \<Rightarrow> 'r) \<Rightarrow> heap \<Rightarrow> 'r" where
  "runOnAppThread target fn h = fn h"

text \<open>
  A \<^verbatim>\<open>QWidget *\<close> is used through the widget part of the object it designates; there is
  none when the pointer designates no object, or an object of another class.
\<close>

definition widget_at :: "heap \<Rightarrow> ptr \<Rightarrow> QWidget option" where
  "widget_at h p =
     (case objs h p of
        Some (QWidgetObj w) \<Rightarrow> Some w
      | Some (QWebEngineViewObj v) \<Rightarrow> Some (viewWidget v)
      | _ \<Rightarrow> None)"

definition update_widget :: "ptr \<Rightarrow> (QWidget \<Rightarrow> QWidget) \<Rightarrow> heap \<Rightarrow> heap option" where
  "update_widget p f h =
     (case objs h p of
        Some (QWidgetObj w) \<Rightarrow> Some (h\<lparr>objs := (objs h)(p \<mapsto> QWidgetObj (f w))\<rparr>)
      | Some (QWebEngineViewObj v) \<Rightarrow>
          Some (h\<lparr>objs := (objs h)(p \<mapsto> QWebEngineViewObj (v\<lparr>viewWidget := f (viewWidget v)\<rparr>))\<rparr>)
      | _ \<Rightarrow> None)"

definition update_layout ::
  "ptr \<Rightarrow> (QVBoxLayout \<Rightarrow> QVBoxLayout) \<Rightarrow> heap \<Rightarrow> heap option" where
  "update_layout p f h =
     (case objs h p of
        Some (QVBoxLayoutObj l) \<Rightarrow> Some (h\<lparr>objs := (objs h)(p \<mapsto> QVBoxLayoutObj (f l))\<rparr>)
      | _ \<Rightarrow> None)"

text \<open>
  \<^verbatim>\<open>new QWidget(parent)\<close>: 640 by 480 until resized, no minimum, the largest maximum, no
  title, no window state, hidden, no layout.
\<close>

definition QWidget_ctor :: "ptr option \<Rightarrow> QWidget" where
  "QWidget_ctor parent =
     \<lparr>parentWidget = parent,
      widgetSize = \<lparr>width = 640, height = 480\<rparr>,
      minimumSize = \<lparr>width = 0, height = 0\<rparr>,
      maximumSize = \<lparr>width = QWIDGETSIZE_MAX, height = QWIDGETSIZE_MAX\<rparr>,
      windowTitle = QString_fromUtf8 [],
      windowState = WindowNoState,
      visible = False,
      layout = None\<rparr>"

definition QWidget_new :: "ptr option \<Rightarrow> heap \<Rightarrow> (ptr \<times> heap) option" where
  "QWidget_new parent h = Some (heap_new (QWidgetObj (QWidget_ctor parent)) h)"

text \<open>
  \<^verbatim>\<open>QWidget::resize\<close>: the size is adjusted if it lies outside the range defined by
  the minimum and the maximum size.
\<close>

definition bounded_size :: "QWidget \<Rightarrow> int \<Rightarrow> int \<Rightarrow> QSize" where
  "bounded_size w wd ht =
     \<lparr>width = max (width (minimumSize w)) (min (width (maximumSize w)) wd),
      height = max (height (minimumSize w)) (min (height (maximumSize w)) ht)\<rparr>"

definition QWidget_resize :: "ptr \<Rightarrow> int \<Rightarrow> int \<Rightarrow> heap \<Rightarrow> heap option" where
  "QWidget_resize p wd ht = update_widget p (\<lambda>w. w\<lparr>widgetSize := bounded_size w wd ht\<rparr>)"

text \<open>
  \<^verbatim>\<open>QWidget::setMinimumSize\<close>: the minimum is kept between 0 and the largest size, and
  the widget grows to it if it is smaller.
\<close>

definition setMinimumSize_widget :: "int \<Rightarrow> int \<Rightarrow> QWidget \<Rightarrow> QWidget" where
  "setMinimumSize_widget minw minh w =
     (let mw = max 0 (min QWIDGETSIZE_MAX minw);
          mh = max 0 (min QWIDGETSIZE_MAX minh);
          w = w\<lparr>minimumSize := \<lparr>width = mw, height = mh\<rparr>\<rparr>
      in if mw > width (widgetSize w) \<or> mh > height (widgetSize w)
         then w\<lparr>widgetSize :=
                  bounded_size w (max mw (width (widgetSize w))) (max mh (height (widgetSize w)))\<rparr>
         else w)"

definition QWidget_setMinimumSize :: "ptr \<Rightarrow> int \<Rightarrow> int \<Rightarrow> heap \<Rightarrow> heap option" where
  "QWidget_setMinimumSize p minw minh = update_widget p (setMinimumSize_widget minw minh)"

definition QWidget_setWindowTitle :: "ptr \<Rightarrow> QString \<Rightarrow> heap \<Rightarrow> heap option" where
  "QWidget_setWindowTitle p title = update_widget p (\<lambda>w. w\<lparr>windowTitle := title\<rparr>)"

definition QWidget_windowState :: "ptr \<Rightarrow> heap \<Rightarrow> WindowStates option" where
  "QWidget_windowState p h = map_option windowState (widget_at h p)"

definition QWidget_setWindowState :: "ptr \<Rightarrow> WindowStates \<Rightarrow> heap \<Rightarrow> heap option" where
  "QWidget_setWindowState p st = update_widget p (\<lambda>w. w\<lparr>windowState := st\<rparr>)"

text \<open>\<^verbatim>\<open>QWidget::show\<close>, as far as the window itself goes: it becomes visible.\<close>

definition QWidget_show :: "ptr \<Rightarrow> heap \<Rightarrow> heap option" where
  "QWidget_show p = update_widget p (\<lambda>w. w\<lparr>visible := True\<rparr>)"

text \<open>
  \<^verbatim>\<open>new QVBoxLayout(parent)\<close>: margins and spacing are unset (-1, the style decides), and
  the layout becomes the layout of \<open>parent\<close>, which must be a widget without one.
\<close>

definition QVBoxLayout_ctor :: "ptr \<Rightarrow> QVBoxLayout" where
  "QVBoxLayout_ctor parent =
     \<lparr>layoutParent = Some parent,
      contentsMargins = (-1, -1, -1, -1),
      spacing = -1,
      layoutItems = []\<rparr>"

definition QVBoxLayout_new :: "ptr \<Rightarrow> heap \<Rightarrow> (ptr \<times> heap) option" where
  "QVBoxLayout_new parent h =
     (case widget_at h parent of
        None \<Rightarrow> None
      | Some w \<Rightarrow>
          (let (l, h) = heap_new (QVBoxLayoutObj (QVBoxLayout_ctor parent)) h
           in map_option (Pair l)
                (update_widget parent
                   (\<lambda>w. if layout w = None then w\<lparr>layout := Some l\<rparr> else w) h)))"

definition QLayout_setContentsMargins ::
  "ptr \<Rightarrow> int \<Rightarrow> int \<Rightarrow> int \<Rightarrow> int \<Rightarrow> heap \<Rightarrow> heap option" where
  "QLayout_setContentsMargins p ml mt mr mb =
     update_layout p (\<lambda>l. l\<lparr>contentsMargins := (ml, mt, mr, mb)\<rparr>)"

definition QLayout_setSpacing :: "ptr \<Rightarrow> int \<Rightarrow> heap \<Rightarrow> heap option" where
  "QLayout_setSpacing p s = update_layout p (\<lambda>l. l\<lparr>spacing := s\<rparr>)"

text \<open>\<^verbatim>\<open>QBoxLayout::addWidget\<close>: the widget is appended to the items of the layout.\<close>

definition QLayout_addWidget :: "ptr \<Rightarrow> ptr \<Rightarrow> heap \<Rightarrow> heap option" where
  "QLayout_addWidget p child h =
     (case widget_at h child of
        None \<Rightarrow> None
      | Some c \<Rightarrow> update_layout p (\<lambda>l. l\<lparr>layoutItems := layoutItems l @ [child]\<rparr>) h)"

definition QWebEngineView_new :: "ptr \<Rightarrow> heap \<Rightarrow> (ptr \<times> heap) option" where
  "QWebEngineView_new parent h =
     (case widget_at h parent of
        None \<Rightarrow> None
      | Some w \<Rightarrow>
          Some (heap_new
            (QWebEngineViewObj \<lparr>viewWidget = QWidget_ctor (Some parent), requestedUrl = None\<rparr>) h))"

definition QWebEngineView_load :: "ptr \<Rightarrow> QUrl \<Rightarrow> heap \<Rightarrow> heap option" where
  "QWebEngineView_load p u h =
     (case objs h p of
        Some (QWebEngineViewObj v) \<Rightarrow>
          Some (h\<lparr>objs := (objs h)(p \<mapsto> QWebEngineViewObj (v\<lparr>requestedUrl := Some u\<rparr>))\<rparr>)
      | _ \<Rightarrow> None)"

subsection \<open>Window\<close>

record Window =
  window :: ptr
  window_layout :: ptr
  web_engine_view :: ptr

text \<open>
  \<^verbatim>\<open>Window_new\<close> (lib.cpp, lines 110 to 140). The \<^verbatim>\<open>Window\<close> struct is returned by
  value here; the source returns a pointer to a fresh copy of it.
\<close>

definition Window_new :: "'app \<Rightarrow> string \<Rightarrow> heap \<Rightarrow> (Window \<times> heap) option" where
  "Window_new app start_url h =
     runOnAppThread app
       (\<lambda>h. do {
          (w, h) \<leftarrow> QWidget_new None h;
          h \<leftarrow> QWidget_resize w 800 600 h;
          h \<leftarrow> QWidget_setMinimumSize w 320 240 h;
          (layout, h) \<leftarrow> QVBoxLayout_new w h;
          h \<leftarrow> QLayout_setContentsMargins layout 0 0 0 0 h;
          h \<leftarrow> QLayout_setSpacing layout 0 h;
          (view, h) \<leftarrow> QWebEngineView_new w h;
          h \<leftarrow> QLayout_addWidget layout view h;
          h \<leftarrow> QWebEngineView_load view (QUrl (QString_fromUtf8 start_url)) h;
          h \<leftarrow> QWidget_show w h;
          Some (\<lparr>window = w, window_layout = layout, web_engine_view = view\<rparr>, h)
        }) h"

text \<open>\<^verbatim>\<open>Window_set_title\<close> (lines 142 to 146).\<close>

definition Window_set_title :: "ptr \<Rightarrow> string \<Rightarrow> heap \<Rightarrow> heap option" where
  "Window_set_title win_ptr title h =
     (let win = win_ptr;
          qtitle = QString_fromUtf8 title
      in runOnAppThread win (\<lambda>h. QWidget_setWindowTitle win qtitle h) h)"

text \<open>\<^verbatim>\<open>Window_fullscreen\<close> and \<^verbatim>\<open>Window_maximize\<close> (lines 168 to 176).\<close>

definition Window_fullscreen :: "ptr \<Rightarrow> heap \<Rightarrow> heap option" where
  "Window_fullscreen win_ptr h =
     (let win = win_ptr
      in runOnAppThread win
           (\<lambda>h. do {
              st \<leftarrow> QWidget_windowState win h;
              QWidget_setWindowState win (st XOR WindowFullScreen) h
            }) h)"

definition Window_maximize :: "ptr \<Rightarrow> heap \<Rightarrow> heap option" where
  "Window_maximize win_ptr h =
     (let win = win_ptr
      in runOnAppThread win
           (\<lambda>h. do {
              st \<leftarrow> QWidget_windowState win h;
              QWidget_setWindowState win (st XOR WindowMaximized) h
            }) h)"

subsection \<open>Application\<close>

record QScreen =
  screenSize :: QSize
  screenPhysicalSize :: QSizeF

text \<open>
  What the closure of \<^verbatim>\<open>Application_get_screens\<close> reads of the application:
  \<open>screens\<close> is \<^verbatim>\<open>app->screens()\<close>, each pointer with the screen it designates;
  \<open>focusWidget\<close> is \<open>None\<close> for \<^verbatim>\<open>nullptr\<close>; \<open>windowScreen w\<close> is
  \<^verbatim>\<open>w->window()->windowHandle()->screen()\<close>.
\<close>

record QApplication =
  screens :: "(ptr \<times> QScreen) list"
  primaryScreen :: ptr
  focusWidget :: "ptr option"
  windowScreen :: "ptr \<Rightarrow> ptr"

text \<open>The cast \<^verbatim>\<open>(int)\<close> of a \<^verbatim>\<open>qreal\<close> truncates towards zero.\<close>

definition int_of_qreal :: "real \<Rightarrow> int" where
  "int_of_qreal x = (if 0 \<le> x then \<lfloor>x\<rfloor> else \<lceil>x\<rceil>)"

text \<open>The body of the loop over the screens (lines 76 to 97).\<close>

definition screen_object :: "ptr \<Rightarrow> ptr \<Rightarrow> ptr \<times> QScreen \<Rightarrow> QJsonValue" where
  "screen_object currentScreen primaryScreen' screen =
     (let s = [];
          s = QJsonObject_insert ''isCurrent'' (JBool (currentScreen = fst screen)) s;
          s = QJsonObject_insert ''isPrimary'' (JBool (primaryScreen' = fst screen)) s;
          screenSize' = screenSize (snd screen);
          s = QJsonObject_insert ''width'' (JNumber (width screenSize')) s;
          s = QJsonObject_insert ''height'' (JNumber (height screenSize')) s;
          size' = [];
          size' = QJsonObject_insert ''width'' (JNumber (width screenSize')) size';
          size' = QJsonObject_insert ''height'' (JNumber (height screenSize')) size';
          s = QJsonObject_insert ''size'' (JObject size') s;
          screenPhysicalSize' = screenPhysicalSize (snd screen);
          physicalSize = [];
          physicalSize = QJsonObject_insert ''width''
            (JNumber (int_of_qreal (widthF screenPhysicalSize'))) physicalSize;
          physicalSize = QJsonObject_insert ''height''
            (JNumber (int_of_qreal (heightF screenPhysicalSize'))) physicalSize;
          s = QJsonObject_insert ''physicalSize'' (JObject size') s
      in JObject s)"

fun screens_loop ::
  "ptr \<Rightarrow> ptr \<Rightarrow> (ptr \<times> QScreen) list \<Rightarrow> QJsonValue list \<Rightarrow> QJsonValue list" where
  "screens_loop currentScreen primaryScreen' [] arr = arr"
| "screens_loop currentScreen primaryScreen' (screen # rest) arr =
     screens_loop currentScreen primaryScreen' rest
       (arr @ [screen_object currentScreen primaryScreen' screen])"

text \<open>
  The closure run on the application thread (lines 62 to 101), up to the array it
  serializes. The local \<^verbatim>\<open>currentScreen\<close> is declared without an initializer and
  assigned only when a widget has the focus; \<open>indeterminate\<close> is the value the
  variable holds otherwise.
\<close>

definition screens_array :: "ptr \<Rightarrow> QApplication \<Rightarrow> QJsonValue list" where
  "screens_array indeterminate app =
     (let screens' = screens app;
          primaryScreen' = primaryScreen app;
          currentScreen = indeterminate;
          focusedWidget = focusWidget app;
          currentScreen =
            (case focusedWidget of
               Some fw \<Rightarrow> windowScreen app fw
             | None \<Rightarrow> currentScreen)
      in screens_loop currentScreen primaryScreen' screens' [])"

definition Application_get_screens_closure :: "ptr \<Rightarrow> QApplication \<Rightarrow> QString" where
  "Application_get_screens_closure indeterminate app =
     QString_fromUtf8 (toJson_Compact (JArray (screens_array indeterminate app)))"

text \<open>
  \<^verbatim>\<open>Application_get_screens\<close> (lines 59 to 105). \<^verbatim>\<open>res.toLocal8Bit()\<close> is a temporary
  byte array; \<^verbatim>\<open>data()\<close> is the address of its buffer; the temporary is destroyed when
  the \<^verbatim>\<open>return\<close> statement has been evaluated. The write to the log is left out.
\<close>

definition Application_get_screens :: "ptr \<Rightarrow> QApplication \<Rightarrow> heap \<Rightarrow> ptr \<times> heap" where
  "Application_get_screens indeterminate app h =
     (let res = runOnAppThread app (\<lambda>h. Application_get_screens_closure indeterminate app) h;
          (tmp, h) = heap_new (QByteArrayData (toLocal8Bit res)) h;
          data = tmp;
          h = heap_delete tmp h
      in (data, h))"

text \<open>The C string a \<^verbatim>\<open>char *\<close> designates, if it designates a live buffer.\<close>

definition c_string_at :: "heap \<Rightarrow> ptr \<Rightarrow> string option" where
  "c_string_at h p = (case objs h p of Some (QByteArrayData bytes) \<Rightarrow> Some bytes | _ \<Rightarrow> None)"

subsection \<open>Signals\<close>

text \<open>
  \<^verbatim>\<open>struct sigaction\<close> with the members POSIX gives it, and the process as far as
  \<^verbatim>\<open>fix_signal\<close> touches it. The constants are those of Linux on x86-64 with the GNU C
  library.
\<close>

datatype sighandler = SIG_DFL | SIG_IGN | SIG_function ptr

record sigaction_struct =
  sa_handler :: sighandler
  sa_mask :: "int set"
  sa_flags :: "32 word"

definition SA_ONSTACK :: "32 word" where
  "SA_ONSTACK = 0x08000000"

definition SA_RESTORER :: "32 word" where
  "SA_RESTORER = 0x04000000"

text \<open>
  The flags the kernel knows: \<^verbatim>\<open>SA_NOCLDSTOP\<close>, \<^verbatim>\<open>SA_NOCLDWAIT\<close>, \<^verbatim>\<open>SA_SIGINFO\<close>,
  \<^verbatim>\<open>SA_EXPOSE_TAGBITS\<close>, \<^verbatim>\<open>SA_RESTORER\<close>, \<^verbatim>\<open>SA_ONSTACK\<close>, \<^verbatim>\<open>SA_RESTART\<close>, \<^verbatim>\<open>SA_NODEFER\<close>
  and \<^verbatim>\<open>SA_RESETHAND\<close>.
\<close>

definition UAPI_SA_FLAGS :: "32 word" where
  "UAPI_SA_FLAGS = 0xDC000807"

definition SIGKILL :: int where
  "SIGKILL = 9"

definition SIGSTOP :: int where
  "SIGSTOP = 19"

definition NSIG :: int where
  "NSIG = 65"

text \<open>The two signals the C library keeps for itself (\<^verbatim>\<open>SIGCANCEL\<close>, \<^verbatim>\<open>SIGSETXID\<close>).\<close>

definition is_internal_signal :: "int \<Rightarrow> bool" where
  "is_internal_signal sig = (sig = 32 \<or> sig = 33)"

datatype errno = EFAULT | EINVAL

record process =
  sigactions :: "int \<Rightarrow> sigaction_struct"
  stderr :: string

text \<open>
  What the kernel keeps of an action it is given: the mask without \<^verbatim>\<open>SIGKILL\<close> and
  \<^verbatim>\<open>SIGSTOP\<close> and without numbers that are no signals, and the flags it knows. An action
  read from the kernel is of this form.
\<close>

definition kernel_act :: "sigaction_struct \<Rightarrow> sigaction_struct" where
  "kernel_act a =
     a\<lparr>sa_mask := (sa_mask a \<inter> {1..64}) - {SIGKILL, SIGSTOP},
       sa_flags := sa_flags a AND UAPI_SA_FLAGS\<rparr>"

text \<open>
  \<^verbatim>\<open>sigaction(signum, act, &old)\<close>. The library refuses a number that is no signal
  and its two internal signals, the kernel an attempt to change the action of
  \<^verbatim>\<open>SIGKILL\<close> or \<^verbatim>\<open>SIGSTOP\<close>: the call returns -1 with \<^verbatim>\<open>errno\<close> \<^verbatim>\<open>EINVAL\<close> (\<open>Inl\<close>), and
  no action is installed. Otherwise the old action is handed back, and \<open>act\<close>, if
  given, is installed: the library sets \<^verbatim>\<open>SA_RESTORER\<close> in its flags, and the kernel
  keeps it in its own form.
\<close>

definition sigaction ::
  "int \<Rightarrow> sigaction_struct option \<Rightarrow> process \<Rightarrow> errno + sigaction_struct \<times> process" where
  "sigaction signum act p =
     (if signum \<le> 0 \<or> NSIG \<le> signum \<or> is_internal_signal signum then Inl EINVAL
      else if act \<noteq> None \<and> (signum = SIGKILL \<or> signum = SIGSTOP) then Inl EINVAL
      else Inr (sigactions p signum,
                case act of
                  None \<Rightarrow> p
                | Some a \<Rightarrow>
                    p\<lparr>sigactions := (sigactions p)
                        (signum := kernel_act (a\<lparr>sa_flags := sa_flags a OR SA_RESTORER\<rparr>))\<rparr>))"

fun strerror :: "errno \<Rightarrow> string" where
  "strerror EFAULT = ''Bad address''"
| "strerror EINVAL = ''Invalid argument''"

definition fix_signal_error :: "int \<Rightarrow> errno \<Rightarrow> process \<Rightarrow> process" where
  "fix_signal_error signum errno p =
     p\<lparr>stderr := stderr p
          @ ''error fixing handler for signal '' @ show_int signum @ '', please ''
          @ ''report this issue to ''
          @ ''https://github.com/wailsapp/wails: '' @ strerror errno @ [CHR 0x0A]\<rparr>"

text \<open>\<^verbatim>\<open>fix_signal\<close> (lines 213 to 230).\<close>

definition fix_signal :: "int \<Rightarrow> process \<Rightarrow> process" where
  "fix_signal signum p =
     (case sigaction signum None p of
        Inl errno \<Rightarrow> fix_signal_error signum errno p
      | Inr (st, p) \<Rightarrow>
          (let st = st\<lparr>sa_flags := sa_flags st OR SA_ONSTACK\<rparr>
           in case sigaction signum (Some st) p of
                Inl errno \<Rightarrow> fix_signal_error signum errno p
              | Inr (old, p) \<Rightarrow> p))"

subsection \<open>The C interface\<close>

text \<open>
  The prototypes of \<^verbatim>\<open>lib.hpp\<close>, in its order, each with whether it is written with the
  keyword \<^verbatim>\<open>extern\<close> (a function of the host that the bridge calls), and the functions
  that \<^verbatim>\<open>lib.cpp\<close> defines, in its order.
\<close>

definition lib_hpp_declarations :: "(bool \<times> string) list" where
  "lib_hpp_declarations =
     [(True, ''appExited''),
      (False, ''Application_new''),
      (False, ''Application_exec''),
      (False, ''Application_quit''),
      (False, ''Application_get_screens''),
      (False, ''Window_new''),
      (False, ''Window_set_title''),
      (False, ''Window_resize''),
      (False, ''Window_set_minimum_size''),
      (False, ''Window_hide''),
      (False, ''Window_show''),
      (False, ''Window_fullscreen''),
      (False, ''Window_maximize''),
      (False, ''Window_close''),
      (False, ''WebEngineView_load_url''),
      (False, ''WebEngineView_reload''),
      (False, ''WebEngineView_run_js''),
      (False, ''fix_signal''),
      (False, ''install_signal_handlers''),
      (False, ''bye'')]"

definition lib_cpp_definitions :: "string list" where
  "lib_cpp_definitions =
     [''Application_new'',
      ''Application_quit'',
      ''Application_get_screens'',
      ''Window_new'',
      ''Window_set_title'',
      ''Window_set_minimum_size'',
      ''Window_resize'',
      ''Window_hide'',
      ''Window_show'',
      ''Window_fullscreen'',
      ''Window_maximize'',
      ''Window_close'',
      ''WebEngineView_load_url'',
      ''WebEngineView_reload'',
      ''WebEngineView_run_js'',
      ''fix_signal'',
      ''install_signal_handlers'',
      ''bye'']"

text \<open>The operations the header offers to the host that the bridge does not define.\<close>

definition undefined_operations :: "string list" where
  "undefined_operations =
     map snd (filter (\<lambda>(ext, name). \<not> ext \<and> \<not> List.member lib_cpp_definitions name)
       lib_hpp_declarations)"

section \<open>Properties\<close>

subsection \<open>Creating a window\<close>

lemmas toolkit_defs =
  runOnAppThread_def QWidget_new_def heap_new_def
  QWidget_resize_def update_widget_def QWidget_setMinimumSize_def
  setMinimumSize_widget_def bounded_size_def QWidget_ctor_def QWIDGETSIZE_MAX_def
  QVBoxLayout_new_def widget_at_def QVBoxLayout_ctor_def
  QLayout_setContentsMargins_def update_layout_def QLayout_setSpacing_def
  QWebEngineView_new_def QLayout_addWidget_def QWebEngineView_load_def QWidget_show_def

text \<open>
  The heap after \<^verbatim>\<open>Window_new\<close>, written out: three fresh objects at consecutive
  addresses, and no call of the closure is made on a dangling pointer.
\<close>

lemma Window_new_result:
  "Window_new app start_url h =
     Some (\<lparr>window = next_addr h,
            window_layout = Suc (next_addr h),
            web_engine_view = Suc (Suc (next_addr h))\<rparr>,
           h\<lparr>objs := (objs h)
               (next_addr h \<mapsto> QWidgetObj
                  \<lparr>parentWidget = None,
                   widgetSize = \<lparr>width = 800, height = 600\<rparr>,
                   minimumSize = \<lparr>width = 320, height = 240\<rparr>,
                   maximumSize = \<lparr>width = QWIDGETSIZE_MAX, height = QWIDGETSIZE_MAX\<rparr>,
                   windowTitle = QString_fromUtf8 [],
                   windowState = WindowNoState,
                   visible = True,
                   layout = Some (Suc (next_addr h))\<rparr>,
                Suc (next_addr h) \<mapsto> QVBoxLayoutObj
                  \<lparr>layoutParent = Some (next_addr h),
                   contentsMargins = (0, 0, 0, 0),
                   spacing = 0,
                   layoutItems = [Suc (Suc (next_addr h))]\<rparr>,
                Suc (Suc (next_addr h)) \<mapsto> QWebEngineViewObj
                  \<lparr>viewWidget = QWidget_ctor (Some (next_addr h)),
                   requestedUrl = Some (QUrl (QString_fromUtf8 start_url))\<rparr>),
             next_addr := Suc (Suc (Suc (next_addr h)))\<rparr>)"
  by (simp add: Window_new_def toolkit_defs fun_upd_twist)

text \<open>
  C1. For every application and start URL, \<^verbatim>\<open>Window_new\<close> returns a \<^verbatim>\<open>Window\<close> whose
  window widget has \<^verbatim>\<open>window_layout\<close> as its layout, the layout (margins and spacing 0)
  holds exactly the web view, which is a child of the window and is loading the start
  URL; the widget measures 800 by 600, its minimum size is 320 by 240, and it is shown.
\<close>

theorem Window_new_builds_window:
  "\<exists>win h' w l v.
     Window_new app start_url h = Some (win, h') \<and>
     objs h' (window win) = Some (QWidgetObj w) \<and>
     objs h' (window_layout win) = Some (QVBoxLayoutObj l) \<and>
     objs h' (web_engine_view win) = Some (QWebEngineViewObj v) \<and>
     layout w = Some (window_layout win) \<and>
     layoutParent l = Some (window win) \<and>
     layoutItems l = [web_engine_view win] \<and>
     parentWidget (viewWidget v) = Some (window win) \<and>
     contentsMargins l = (0, 0, 0, 0) \<and>
     spacing l = 0 \<and>
     requestedUrl v = Some (QUrl (QString_fromUtf8 start_url)) \<and>
     widgetSize w = \<lparr>width = 800, height = 600\<rparr> \<and>
     minimumSize w = \<lparr>width = 320, height = 240\<rparr> \<and>
     visible w"
  by (simp add: Window_new_result QWidget_ctor_def)

subsection \<open>Setting the title\<close>

text \<open>
  C9. For every window and title, \<^verbatim>\<open>Window_set_title\<close> sets the title of the window to
  the UTF-8 decoding of the argument and changes nothing else: the size, the minimum
  size, the window state and every other property of the widget are as before, and so
  is every other object, the web view among them.
\<close>

theorem Window_set_title_frame:
  assumes "objs h win_ptr = Some (QWidgetObj w)"
  shows "\<exists>h' w'.
     Window_set_title win_ptr title h = Some h' \<and>
     objs h' win_ptr = Some (QWidgetObj w') \<and>
     windowTitle w' = QString_fromUtf8 title \<and>
     widgetSize w' = widgetSize w \<and>
     minimumSize w' = minimumSize w \<and>
     maximumSize w' = maximumSize w \<and>
     windowState w' = windowState w \<and>
     visible w' = visible w \<and>
     layout w' = layout w \<and>
     parentWidget w' = parentWidget w \<and>
     (\<forall>q. q \<noteq> win_ptr \<longrightarrow> objs h' q = objs h q) \<and>
     next_addr h' = next_addr h"
  using assms
  by (simp add: Window_set_title_def runOnAppThread_def QWidget_setWindowTitle_def
      update_widget_def)

theorem Window_set_title_frame_witness:
  "\<exists>win h0 h' w w'.
     Window_new () ''wails://wails/'' \<lparr>objs = Map.empty, next_addr = 0\<rparr> = Some (win, h0) \<and>
     objs h0 (window win) = Some (QWidgetObj w) \<and>
     Window_set_title (window win) ''Wails'' h0 = Some h' \<and>
     objs h' (window win) = Some (QWidgetObj w') \<and>
     windowTitle w' = QString_fromUtf8 ''Wails'' \<and>
     widgetSize w' = \<lparr>width = 800, height = 600\<rparr> \<and>
     minimumSize w' = \<lparr>width = 320, height = 240\<rparr> \<and>
     windowState w' = WindowNoState \<and>
     objs h' (web_engine_view win) = objs h0 (web_engine_view win) \<and>
     objs h' (window_layout win) = objs h0 (window_layout win)"
proof -
  let ?h = "\<lparr>objs = Map.empty, next_addr = 0\<rparr>"
  obtain h0 where new: "Window_new () ''wails://wails/'' ?h =
      Some (\<lparr>window = 0, window_layout = 1, web_engine_view = 2\<rparr>, h0)"
    and w: "objs h0 0 = Some (QWidgetObj
                  \<lparr>parentWidget = None,
                   widgetSize = \<lparr>width = 800, height = 600\<rparr>,
                   minimumSize = \<lparr>width = 320, height = 240\<rparr>,
                   maximumSize = \<lparr>width = QWIDGETSIZE_MAX, height = QWIDGETSIZE_MAX\<rparr>,
                   windowTitle = QString_fromUtf8 [],
                   windowState = WindowNoState,
                   visible = True,
                   layout = Some 1\<rparr>)"
    by (simp add: Window_new_result)
  from Window_set_title_frame [OF w, of "''Wails''"] new w show ?thesis
    by (auto simp del: One_nat_def)
qed

subsection \<open>Toggling the window state\<close>

lemma xor_flag_twice: "(st XOR f) XOR f = (st :: WindowStates)"
  by (auto simp add: bit_eq_iff bit_simps)

lemma bit_word_exp: "m < 32 \<Longrightarrow> bit (2 ^ m :: 32 word) n = (n = m)"
  by (auto simp add: bit_exp_iff)

lemma bit_WindowFullScreen: "bit WindowFullScreen n = (n = 2)"
  using bit_word_exp [of 2 n] by (simp add: WindowFullScreen_def)

lemma bit_WindowMaximized: "bit WindowMaximized n = (n = 1)"
  using bit_word_exp [of 1 n] by (simp add: WindowMaximized_def)

lemma heap_update_same:
  "objs h p = Some obj \<Longrightarrow> h\<lparr>objs := (objs h)(p \<mapsto> obj)\<rparr> = h"
  by (simp add: fun_upd_idem)

text \<open>
  C10. On every window, \<^verbatim>\<open>Window_fullscreen\<close> replaces the window state by its XOR with
  the fullscreen flag: bit 2 is inverted and every other bit is kept, and a second call
  gives back the heap the first one started from. \<^verbatim>\<open>Window_maximize\<close> does the same
  with the maximized flag, bit 1.
\<close>

theorem Window_fullscreen_involution:
  assumes "objs h win_ptr = Some (QWidgetObj w)"
  shows "\<exists>h1 w1 h2 w2.
     Window_fullscreen win_ptr h = Some h1 \<and>
     objs h1 win_ptr = Some (QWidgetObj w1) \<and>
     w1 = w\<lparr>windowState := windowState w XOR WindowFullScreen\<rparr> \<and>
     (\<forall>n. bit (windowState w1) n =
        (if n = 2 then \<not> bit (windowState w) n else bit (windowState w) n)) \<and>
     Window_fullscreen win_ptr h1 = Some h \<and>
     Window_maximize win_ptr h = Some h2 \<and>
     objs h2 win_ptr = Some (QWidgetObj w2) \<and>
     w2 = w\<lparr>windowState := windowState w XOR WindowMaximized\<rparr> \<and>
     (\<forall>n. bit (windowState w2) n =
        (if n = 1 then \<not> bit (windowState w) n else bit (windowState w) n)) \<and>
     Window_maximize win_ptr h2 = Some h"
  using assms
  by (simp add: Window_fullscreen_def Window_maximize_def runOnAppThread_def
      QWidget_windowState_def QWidget_setWindowState_def widget_at_def update_widget_def
      xor_flag_twice heap_update_same bit_xor_iff bit_WindowFullScreen bit_WindowMaximized)

theorem Window_fullscreen_involution_witness:
  "\<exists>h1 h2.
     Window_fullscreen 0
       \<lparr>objs = [0 \<mapsto> QWidgetObj ((QWidget_ctor None)\<lparr>windowState := WindowMaximized\<rparr>)],
        next_addr = 1\<rparr> = Some h1 \<and>
     objs h1 0 = Some (QWidgetObj ((QWidget_ctor None)\<lparr>windowState := 6\<rparr>)) \<and>
     Window_fullscreen 0 h1 =
       Some \<lparr>objs = [0 \<mapsto> QWidgetObj ((QWidget_ctor None)\<lparr>windowState := WindowMaximized\<rparr>)],
        next_addr = 1\<rparr> \<and>
     Window_maximize 0
       \<lparr>objs = [0 \<mapsto> QWidgetObj ((QWidget_ctor None)\<lparr>windowState := WindowMaximized\<rparr>)],
        next_addr = 1\<rparr> = Some h2 \<and>
     objs h2 0 = Some (QWidgetObj ((QWidget_ctor None)\<lparr>windowState := 0\<rparr>))"
  using Window_fullscreen_involution
    [of "\<lparr>objs = [0 \<mapsto> QWidgetObj ((QWidget_ctor None)\<lparr>windowState := WindowMaximized\<rparr>)],
        next_addr = 1\<rparr>" 0 "(QWidget_ctor None)\<lparr>windowState := WindowMaximized\<rparr>"]
  by (auto simp add: WindowMaximized_def WindowFullScreen_def)

subsection \<open>The list of screens\<close>

lemma screen_object_eq:
  "screen_object cur prim screen =
     JObject
       [(''height'', JNumber (height (screenSize (snd screen)))),
        (''isCurrent'', JBool (cur = fst screen)),
        (''isPrimary'', JBool (prim = fst screen)),
        (''physicalSize'', JObject
           [(''height'', JNumber (height (screenSize (snd screen)))),
            (''width'', JNumber (width (screenSize (snd screen))))]),
        (''size'', JObject
           [(''height'', JNumber (height (screenSize (snd screen)))),
            (''width'', JNumber (width (screenSize (snd screen))))]),
        (''width'', JNumber (width (screenSize (snd screen))))]"
  by (simp add: screen_object_def Let_def)

lemma screens_loop_eq:
  "screens_loop cur prim scrs arr = arr @ map (screen_object cur prim) scrs"
  by (induction scrs arbitrary: arr) simp_all

text \<open>One object per screen, in the order of \<^verbatim>\<open>app->screens()\<close>.\<close>

lemma screens_array_eq:
  "screens_array u app =
     map (screen_object (case focusWidget app of Some fw \<Rightarrow> windowScreen app fw | None \<Rightarrow> u)
            (primaryScreen app)) (screens app)"
  by (simp add: screens_array_def screens_loop_eq)

lemma length_screens_array: "length (screens_array u app) = length (screens app)"
  by (simp add: screens_array_eq)

text \<open>The text for one screen of 1920 by 1080 that is primary and holds the focus.\<close>

lemma Application_get_screens_closure_example:
  \<open>toLocal8Bit (Application_get_screens_closure 0
     \<lparr>screens = [(7, \<lparr>screenSize = \<lparr>width = 1920, height = 1080\<rparr>,
                      screenPhysicalSize = \<lparr>widthF = 527, heightF = 296\<rparr>\<rparr>)],
      primaryScreen = 7, focusWidget = Some 3, windowScreen = (\<lambda>w. 7)\<rparr>) =
   ''[{"height":1080,"isCurrent":true,"isPrimary":true,"physicalSize":{"height":1080,"width":1920},"size":{"height":1080,"width":1920},"width":1920}]''\<close>
  by (simp add: Application_get_screens_closure_def screens_array_eq screen_object_eq
      show_int_def show_nat.simps digit_char_def)

lemma Application_get_screens_result:
  "Application_get_screens u app h =
     (next_addr h,
      h\<lparr>objs := (objs h)(next_addr h := None), next_addr := Suc (next_addr h)\<rparr>)"
  by (simp add: Application_get_screens_def heap_new_def heap_delete_def Let_def)

text \<open>
  Until the temporary byte array is destroyed, its buffer holds the compact
  serialization of the array of screens.
\<close>

lemma temporary_holds_json:
  "c_string_at
     (snd (heap_new (QByteArrayData (toLocal8Bit (Application_get_screens_closure u app))) h))
     (fst (Application_get_screens u app h)) =
   Some (toJson_Compact (JArray (screens_array u app)))"
  by (simp add: Application_get_screens_result Application_get_screens_closure_def
      heap_new_def c_string_at_def)

text \<open>
  C3. \<^verbatim>\<open>Application_get_screens\<close> is to return the compact JSON text of the array of
  screens. The array and its text are as the claim has them (\<open>screens_array_eq\<close>,
  \<open>screen_object_eq\<close>, \<open>temporary_holds_json\<close>), but what the function returns is
  \<^verbatim>\<open>res.toLocal8Bit().data()\<close>, the buffer of a temporary that is destroyed before the
  caller gets the pointer: for every application, the pointer returned designates no
  live string.
\<close>

theorem Application_get_screens_dangling:
  "c_string_at (snd (Application_get_screens u app h))
     (fst (Application_get_screens u app h)) = None"
  by (simp add: Application_get_screens_result c_string_at_def)

text \<open>
  C5. The text that \<^verbatim>\<open>Application_get_screens\<close> computes, and that the buffer whose
  address it returns holds until the temporary is destroyed, is the compact
  serialization of the array of screens. In that array the member \<open>physicalSize\<close> of
  every object is its member \<open>size\<close>, the object made of the width and the height of
  the screen in pixels, and neither the array nor the text depends on the physical
  sizes of the screens.
\<close>

theorem screens_physicalSize_is_size:
  "map (\<lambda>obj. json_member obj ''physicalSize'') (screens_array u app) =
     map (\<lambda>obj. json_member obj ''size'') (screens_array u app) \<and>
   map (\<lambda>obj. json_member obj ''physicalSize'') (screens_array u app) =
     map (\<lambda>screen. Some (JObject
            [(''height'', JNumber (height (screenSize (snd screen)))),
             (''width'', JNumber (width (screenSize (snd screen))))])) (screens app) \<and>
   screens_array u
     (app\<lparr>screens :=
        map (\<lambda>screen. (fst screen, (snd screen)\<lparr>screenPhysicalSize := f screen\<rparr>))
          (screens app)\<rparr>) =
     screens_array u app \<and>
   Application_get_screens_closure u
     (app\<lparr>screens :=
        map (\<lambda>screen. (fst screen, (snd screen)\<lparr>screenPhysicalSize := f screen\<rparr>))
          (screens app)\<rparr>) =
     Application_get_screens_closure u app \<and>
   toLocal8Bit (Application_get_screens_closure u app) =
     toJson_Compact (JArray (screens_array u app)) \<and>
   c_string_at
     (snd (heap_new (QByteArrayData (toLocal8Bit (Application_get_screens_closure u app))) h))
     (fst (Application_get_screens u app h)) =
     Some (toJson_Compact (JArray (screens_array u app)))"
  by (simp add: Application_get_screens_closure_def screens_array_eq screen_object_eq
      json_member_def comp_def Application_get_screens_result heap_new_def c_string_at_def
      split: option.split)

text \<open>
  When no widget has the focus, \<open>isCurrent\<close> compares each screen with the
  indeterminate value of \<^verbatim>\<open>currentScreen\<close>.
\<close>

lemma isCurrent_without_focus:
  "map (\<lambda>obj. json_member obj ''isCurrent'') (screens_array u (app\<lparr>focusWidget := None\<rparr>)) =
     map (\<lambda>screen. Some (JBool (u = fst screen))) (screens app)"
  by (simp add: screens_array_eq screen_object_eq json_member_def comp_def)

text \<open>
  C6. With no widget in focus, \<open>isCurrent\<close> is to be false for every screen, and
  \<^verbatim>\<open>currentScreen\<close> is never to be read uninitialized. With one screen at address 7 and
  no focus, the member is true when the variable happens to hold 7 and false when it
  holds 0: the result is read from the uninitialized variable.
\<close>

theorem isCurrent_reads_indeterminate:
  "map (\<lambda>obj. json_member obj ''isCurrent'')
     (screens_array 7 \<lparr>screens = [(7, scr)], primaryScreen = 7, focusWidget = None,
        windowScreen = (\<lambda>w. 0)\<rparr>) = [Some (JBool True)] \<and>
   map (\<lambda>obj. json_member obj ''isCurrent'')
     (screens_array 0 \<lparr>screens = [(7, scr)], primaryScreen = 7, focusWidget = None,
        windowScreen = (\<lambda>w. 0)\<rparr>) = [Some (JBool False)]"
  by (simp add: screens_array_eq screen_object_eq json_member_def)

subsection \<open>Signal handlers\<close>

lemma bit_SA_ONSTACK: "bit SA_ONSTACK n = (n = 27)"
  using bit_word_exp [of 27 n] by (simp add: SA_ONSTACK_def)

lemma bit_SA_RESTORER: "bit SA_RESTORER n = (n = 26)"
  using bit_word_exp [of 26 n] by (simp add: SA_RESTORER_def)

lemma known_flags_kept:
  assumes "fl AND UAPI_SA_FLAGS = fl"
  shows "((fl OR SA_ONSTACK) OR SA_RESTORER) AND UAPI_SA_FLAGS = (fl OR SA_ONSTACK) OR SA_RESTORER"
proof -
  have "SA_ONSTACK AND UAPI_SA_FLAGS = SA_ONSTACK" "SA_RESTORER AND UAPI_SA_FLAGS = SA_RESTORER"
    by (simp_all add: SA_ONSTACK_def SA_RESTORER_def UAPI_SA_FLAGS_def)
  with assms show ?thesis
    by (simp add: bit.conj_disj_distrib2)
qed

text \<open>A query hands back the installed action and changes nothing.\<close>

lemma sigaction_query:
  "sigaction signum None p = Inr (st, p1) \<Longrightarrow> st = sigactions p signum \<and> p1 = p"
  by (auto simp add: sigaction_def split: if_splits)

lemma sigaction_install:
  "sigaction signum (Some a) p = Inr (old, p2) \<Longrightarrow>
   p2 = p\<lparr>sigactions := (sigactions p)
          (signum := kernel_act (a\<lparr>sa_flags := sa_flags a OR SA_RESTORER\<rparr>))\<rparr>"
  by (simp add: sigaction_def split: if_splits)

text \<open>The signal numbers on which the query fails, and those on which installing does.\<close>

lemma sigaction_query_fails:
  "(sigaction signum None p = Inl e) =
     (e = EINVAL \<and> (signum \<le> 0 \<or> 65 \<le> signum \<or> signum = 32 \<or> signum = 33))"
  by (auto simp add: sigaction_def NSIG_def is_internal_signal_def)

lemma sigaction_install_fails:
  "(sigaction signum (Some a) p = Inl e) =
     (e = EINVAL \<and>
      (signum \<le> 0 \<or> 65 \<le> signum \<or> signum = 32 \<or> signum = 33 \<or> signum = 9 \<or> signum = 19))"
  by (auto simp add: sigaction_def NSIG_def is_internal_signal_def SIGKILL_def SIGSTOP_def)

lemma kernel_act_fields:
  "kernel_act a = a \<Longrightarrow>
     sa_mask a \<inter> {1..64} - {SIGKILL, SIGSTOP} = sa_mask a \<and> sa_flags a AND UAPI_SA_FLAGS = sa_flags a"
  unfolding kernel_act_def
  by (cases a) (auto simp add: sigaction_struct.splits)

text \<open>
  C7, as stated: on success \<^verbatim>\<open>fix_signal\<close> installs the previous action with
  \<^verbatim>\<open>SA_ONSTACK\<close> added and every other bit of the flags as before. It does not hold:
  for signal 10 with the default action and flags 0, both calls succeed and the action
  installed has the flags \<open>0x0C000000\<close>; bit 26, \<^verbatim>\<open>SA_RESTORER\<close>, was clear and is
  set.
\<close>

theorem fix_signal_sets_SA_RESTORER:
  "sigaction 10 None
     \<lparr>sigactions = (\<lambda>s. \<lparr>sa_handler = SIG_DFL, sa_mask = {}, sa_flags = 0\<rparr>), stderr = []\<rparr> =
     Inr (\<lparr>sa_handler = SIG_DFL, sa_mask = {}, sa_flags = 0\<rparr>,
          \<lparr>sigactions = (\<lambda>s. \<lparr>sa_handler = SIG_DFL, sa_mask = {}, sa_flags = 0\<rparr>), stderr = []\<rparr>) \<and>
   sigaction 10 (Some \<lparr>sa_handler = SIG_DFL, sa_mask = {}, sa_flags = 0 OR SA_ONSTACK\<rparr>)
     \<lparr>sigactions = (\<lambda>s. \<lparr>sa_handler = SIG_DFL, sa_mask = {}, sa_flags = 0\<rparr>), stderr = []\<rparr> =
     Inr (\<lparr>sa_handler = SIG_DFL, sa_mask = {}, sa_flags = 0\<rparr>,
          \<lparr>sigactions = (\<lambda>s. \<lparr>sa_handler = SIG_DFL, sa_mask = {}, sa_flags = 0\<rparr>)
             (10 := \<lparr>sa_handler = SIG_DFL, sa_mask = {}, sa_flags = 0x0C000000\<rparr>),
           stderr = []\<rparr>) \<and>
   sigactions (fix_signal 10
     \<lparr>sigactions = (\<lambda>s. \<lparr>sa_handler = SIG_DFL, sa_mask = {}, sa_flags = 0\<rparr>), stderr = []\<rparr>) 10 =
     \<lparr>sa_handler = SIG_DFL, sa_mask = {}, sa_flags = 0x0C000000\<rparr> \<and>
   sigactions (fix_signal 10
     \<lparr>sigactions = (\<lambda>s. \<lparr>sa_handler = SIG_DFL, sa_mask = {}, sa_flags = 0\<rparr>), stderr = []\<rparr>) 10 \<noteq>
     \<lparr>sa_handler = SIG_DFL, sa_mask = {}, sa_flags = 0 OR SA_ONSTACK\<rparr> \<and>
   bit (sa_flags (sigactions (fix_signal 10
     \<lparr>sigactions = (\<lambda>s. \<lparr>sa_handler = SIG_DFL, sa_mask = {}, sa_flags = 0\<rparr>), stderr = []\<rparr>) 10))
     26 \<and>
   \<not> bit (sa_flags (sigactions
     \<lparr>sigactions = (\<lambda>s. \<lparr>sa_handler = SIG_DFL, sa_mask = {}, sa_flags = 0\<rparr>), stderr = []\<rparr> 10))
     26"
  by (simp add: fix_signal_def sigaction_def NSIG_def is_internal_signal_def SIGKILL_def
      SIGSTOP_def kernel_act_def SA_ONSTACK_def SA_RESTORER_def UAPI_SA_FLAGS_def
      bit_word_exp [of 26 26, simplified] bit_or_iff)

text \<open>
  C7, amended. For every signal number on which both calls of \<^verbatim>\<open>sigaction\<close> succeed,
  the action read being one the kernel holds, \<^verbatim>\<open>fix_signal\<close> installs that action
  with \<^verbatim>\<open>SA_ONSTACK\<close> (bit 27) and \<^verbatim>\<open>SA_RESTORER\<close> (bit 26, set by the library in every
  action it installs) set in \<^verbatim>\<open>sa_flags\<close>: the handler, the mask and every other bit of
  the flags are as before, and so are the actions of the other signals and the error
  stream.
\<close>

theorem fix_signal_adds_SA_ONSTACK:
  assumes "sigaction signum None p = Inr (st, p1)"
    and "sigaction signum (Some (st\<lparr>sa_flags := sa_flags st OR SA_ONSTACK\<rparr>)) p1 = Inr (old, p2)"
    and "kernel_act st = st"
  shows "sigactions (fix_signal signum p) signum =
           (sigactions p signum)
             \<lparr>sa_flags := (sa_flags (sigactions p signum) OR SA_ONSTACK) OR SA_RESTORER\<rparr> \<and>
         sa_handler (sigactions (fix_signal signum p) signum) = sa_handler (sigactions p signum) \<and>
         sa_mask (sigactions (fix_signal signum p) signum) = sa_mask (sigactions p signum) \<and>
         (\<forall>n. bit (sa_flags (sigactions (fix_signal signum p) signum)) n =
            (if n = 27 \<or> n = 26 then True else bit (sa_flags (sigactions p signum)) n)) \<and>
         (\<forall>s. s \<noteq> signum \<longrightarrow> sigactions (fix_signal signum p) s = sigactions p s) \<and>
         stderr (fix_signal signum p) = stderr p"
proof -
  from assms(1) have st: "st = sigactions p signum" and p1: "p1 = p"
    using sigaction_query by blast+
  from assms(3) have mask: "sa_mask st \<inter> {1..64} - {SIGKILL, SIGSTOP} = sa_mask st"
    and flags: "sa_flags st AND UAPI_SA_FLAGS = sa_flags st"
    using kernel_act_fields by blast+
  have kept: "kernel_act (st\<lparr>sa_flags := (sa_flags st OR SA_ONSTACK) OR SA_RESTORER\<rparr>) =
      st\<lparr>sa_flags := (sa_flags st OR SA_ONSTACK) OR SA_RESTORER\<rparr>"
    using mask known_flags_kept [OF flags] by (simp add: kernel_act_def)
  from assms(2) have "p2 = p1\<lparr>sigactions := (sigactions p1)
      (signum := kernel_act (st\<lparr>sa_flags := (sa_flags st OR SA_ONSTACK) OR SA_RESTORER\<rparr>))\<rparr>"
    using sigaction_install by fastforce
  with kept have p2: "p2 = p1\<lparr>sigactions := (sigactions p1)
      (signum := st\<lparr>sa_flags := (sa_flags st OR SA_ONSTACK) OR SA_RESTORER\<rparr>)\<rparr>"
    by simp
  have "fix_signal signum p = p2"
    using assms(1,2) by (simp add: fix_signal_def)
  with st p1 p2 show ?thesis
    by (simp add: bit_or_iff bit_SA_ONSTACK bit_SA_RESTORER)
qed

theorem fix_signal_adds_SA_ONSTACK_witness:
  "sigaction 2 None
     \<lparr>sigactions = (\<lambda>s. \<lparr>sa_handler = SIG_function 4096, sa_mask = {15}, sa_flags = 0x10000004\<rparr>),
      stderr = []\<rparr> =
     Inr (\<lparr>sa_handler = SIG_function 4096, sa_mask = {15}, sa_flags = 0x10000004\<rparr>,
          \<lparr>sigactions = (\<lambda>s. \<lparr>sa_handler = SIG_function 4096, sa_mask = {15}, sa_flags = 0x10000004\<rparr>),
           stderr = []\<rparr>) \<and>
   kernel_act \<lparr>sa_handler = SIG_function 4096, sa_mask = {15}, sa_flags = 0x10000004\<rparr> =
     \<lparr>sa_handler = SIG_function 4096, sa_mask = {15}, sa_flags = 0x10000004\<rparr> \<and>
   sigactions (fix_signal 2
     \<lparr>sigactions = (\<lambda>s. \<lparr>sa_handler = SIG_function 4096, sa_mask = {15}, sa_flags = 0x10000004\<rparr>),
      stderr = []\<rparr>) 2 =
     \<lparr>sa_handler = SIG_function 4096, sa_mask = {15}, sa_flags = 0x1C000004\<rparr> \<and>
   sigactions (fix_signal 2
     \<lparr>sigactions = (\<lambda>s. \<lparr>sa_handler = SIG_function 4096, sa_mask = {15}, sa_flags = 0x10000004\<rparr>),
      stderr = []\<rparr>) 15 =
     \<lparr>sa_handler = SIG_function 4096, sa_mask = {15}, sa_flags = 0x10000004\<rparr> \<and>
   stderr (fix_signal 2
     \<lparr>sigactions = (\<lambda>s. \<lparr>sa_handler = SIG_function 4096, sa_mask = {15}, sa_flags = 0x10000004\<rparr>),
      stderr = []\<rparr>) = []"
  using fix_signal_adds_SA_ONSTACK
    [of 2 "\<lparr>sigactions = (\<lambda>s. \<lparr>sa_handler = SIG_function 4096, sa_mask = {15}, sa_flags = 0x10000004\<rparr>),
      stderr = []\<rparr>"
      "\<lparr>sa_handler = SIG_function 4096, sa_mask = {15}, sa_flags = 0x10000004\<rparr>"
      "\<lparr>sigactions = (\<lambda>s. \<lparr>sa_handler = SIG_function 4096, sa_mask = {15}, sa_flags = 0x10000004\<rparr>),
      stderr = []\<rparr>"
      "\<lparr>sa_handler = SIG_function 4096, sa_mask = {15}, sa_flags = 0x10000004\<rparr>"
      "\<lparr>sigactions = (\<lambda>s. \<lparr>sa_handler = SIG_function 4096, sa_mask = {15}, sa_flags = 0x10000004\<rparr>)
          (2 := \<lparr>sa_handler = SIG_function 4096, sa_mask = {15}, sa_flags = 0x1C000004\<rparr>),
      stderr = []\<rparr>"]
  by (simp add: sigaction_def NSIG_def is_internal_signal_def SIGKILL_def SIGSTOP_def
      kernel_act_def SA_ONSTACK_def SA_RESTORER_def UAPI_SA_FLAGS_def)

text \<open>
  C8. For every signal number, if the first or the second call of \<^verbatim>\<open>sigaction\<close> fails,
  \<^verbatim>\<open>fix_signal\<close> appends its message, with the number of the signal and the text of
  the error, to the error stream, and the action of every signal is as before. The
  calls fail on the numbers given by \<open>sigaction_query_fails\<close> and
  \<open>sigaction_install_fails\<close>.
\<close>

theorem fix_signal_failure:
  assumes "sigaction signum None p = Inl e \<or>
     (\<exists>st p1. sigaction signum None p = Inr (st, p1) \<and>
        sigaction signum (Some (st\<lparr>sa_flags := sa_flags st OR SA_ONSTACK\<rparr>)) p1 = Inl e)"
  shows "sigactions (fix_signal signum p) = sigactions p \<and>
         stderr (fix_signal signum p) =
           stderr p @ ''error fixing handler for signal '' @ show_int signum
             @ '', please report this issue to https://github.com/wailsapp/wails: ''
             @ strerror e @ [CHR 0x0A]"
  using assms
proof
  assume "sigaction signum None p = Inl e"
  then show ?thesis
    by (simp add: fix_signal_def fix_signal_error_def)
next
  assume "\<exists>st p1. sigaction signum None p = Inr (st, p1) \<and>
        sigaction signum (Some (st\<lparr>sa_flags := sa_flags st OR SA_ONSTACK\<rparr>)) p1 = Inl e"
  then obtain st p1 where q: "sigaction signum None p = Inr (st, p1)"
    and i: "sigaction signum (Some (st\<lparr>sa_flags := sa_flags st OR SA_ONSTACK\<rparr>)) p1 = Inl e"
    by blast
  from q have "p1 = p"
    using sigaction_query by blast
  with q i show ?thesis
    by (simp add: fix_signal_def fix_signal_error_def)
qed

theorem fix_signal_failure_witness:
  "stderr (fix_signal 9 \<lparr>sigactions = (\<lambda>s. \<lparr>sa_handler = SIG_DFL, sa_mask = {}, sa_flags = 0\<rparr>),
      stderr = []\<rparr>) =
     ''error fixing handler for signal 9, please report this issue to https://github.com/wailsapp/wails: Invalid argument'' @ [CHR 0x0A] \<and>
   sigactions (fix_signal 9 \<lparr>sigactions = (\<lambda>s. \<lparr>sa_handler = SIG_DFL, sa_mask = {}, sa_flags = 0\<rparr>),
      stderr = []\<rparr>) = (\<lambda>s. \<lparr>sa_handler = SIG_DFL, sa_mask = {}, sa_flags = 0\<rparr>) \<and>
   stderr (fix_signal 0 \<lparr>sigactions = (\<lambda>s. \<lparr>sa_handler = SIG_DFL, sa_mask = {}, sa_flags = 0\<rparr>),
      stderr = []\<rparr>) =
     ''error fixing handler for signal 0, please report this issue to https://github.com/wailsapp/wails: Invalid argument'' @ [CHR 0x0A] \<and>
   sigactions (fix_signal 0 \<lparr>sigactions = (\<lambda>s. \<lparr>sa_handler = SIG_DFL, sa_mask = {}, sa_flags = 0\<rparr>),
      stderr = []\<rparr>) = (\<lambda>s. \<lparr>sa_handler = SIG_DFL, sa_mask = {}, sa_flags = 0\<rparr>) \<and>
   stderr (fix_signal 32 \<lparr>sigactions = (\<lambda>s. \<lparr>sa_handler = SIG_DFL, sa_mask = {}, sa_flags = 0\<rparr>),
      stderr = []\<rparr>) =
     ''error fixing handler for signal 32, please report this issue to https://github.com/wailsapp/wails: Invalid argument'' @ [CHR 0x0A] \<and>
   sigactions (fix_signal 32 \<lparr>sigactions = (\<lambda>s. \<lparr>sa_handler = SIG_DFL, sa_mask = {}, sa_flags = 0\<rparr>),
      stderr = []\<rparr>) = (\<lambda>s. \<lparr>sa_handler = SIG_DFL, sa_mask = {}, sa_flags = 0\<rparr>)"
  using fix_signal_failure
    [of 9 "\<lparr>sigactions = (\<lambda>s. \<lparr>sa_handler = SIG_DFL, sa_mask = {}, sa_flags = 0\<rparr>),
      stderr = []\<rparr>" EINVAL]
    fix_signal_failure
    [of 0 "\<lparr>sigactions = (\<lambda>s. \<lparr>sa_handler = SIG_DFL, sa_mask = {}, sa_flags = 0\<rparr>),
      stderr = []\<rparr>" EINVAL]
    fix_signal_failure
    [of 32 "\<lparr>sigactions = (\<lambda>s. \<lparr>sa_handler = SIG_DFL, sa_mask = {}, sa_flags = 0\<rparr>),
      stderr = []\<rparr>" EINVAL]
  by (simp add: sigaction_def NSIG_def is_internal_signal_def SIGKILL_def SIGSTOP_def
      show_int_def show_nat.simps digit_char_def)

subsection \<open>Declared and defined operations\<close>

text \<open>
  C4. Every operation that \<^verbatim>\<open>lib.hpp\<close> declares for the host is to be defined by
  \<^verbatim>\<open>lib.cpp\<close>. One is not: \<^verbatim>\<open>Application_exec\<close> is declared and has no definition;
  every other declared operation is defined.
\<close>

theorem Application_exec_not_defined:
  "undefined_operations = [''Application_exec''] \<and>
   List.member (map snd lib_hpp_declarations) ''Application_exec'' \<and>
   \<not> List.member lib_cpp_definitions ''Application_exec''"
  by (simp add: undefined_operations_def lib_hpp_declarations_def lib_cpp_definitions_def)

end
